theory Spec2Isabelle
  imports Main
begin

section \<open>The JavaScript runtime functions used by \<open>combineDateTime\<close>\<close>

text \<open>
  \<open>combineDateTime\<close> (App.jsx, lines 111-117) calls \<open>String.prototype.split\<close>,
  \<open>Number\<close>, \<open>Date.UTC\<close> and \<open>Date.prototype.toISOString\<close>. They are modelled
  here after ECMA-262 on the inputs the date and time fields can hold.
\<close>

subsection \<open>Outcomes of a call\<close>

text \<open>
  A call returns a value, throws an error carrying a message, or lies outside what the
  model of the runtime decides (\<open>Unmodelled\<close>: the call involved a numeric literal
  that is not a plain string of decimal digits, see \<open>Number_js\<close>).
\<close>

datatype 'a outcome = Returns 'a | Throws string | Unmodelled

subsection \<open>\<open>split\<close>\<close>

text \<open>\<open>s.split(c)\<close> for a one-character separator: \<open>''''.split('-')\<close> is \<open>['''']\<close>.\<close>

fun split_js :: "char \<Rightarrow> string \<Rightarrow> string list" where
  "split_js c [] = [[]]"
| "split_js c (x # xs) =
     (if x = c then [] # split_js c xs
      else (case split_js c xs of [] \<Rightarrow> [[x]] | p # ps \<Rightarrow> (x # p) # ps))"

subsection \<open>\<open>Number\<close>\<close>

text \<open>
  A JavaScript number as far as the model follows it: \<open>NaN\<close>, an exactly known
  integer, or \<open>Other\<close>, a value the model does not compute.
\<close>

datatype jsnum = NaN | Fin int | Other

definition is_digit :: "char \<Rightarrow> bool" where
  "is_digit c = (48 \<le> (of_char c :: nat) \<and> (of_char c :: nat) \<le> 57)"

definition is_letter :: "char \<Rightarrow> bool" where
  "is_letter c = ((65 \<le> (of_char c :: nat) \<and> (of_char c :: nat) \<le> 90)
                \<or> (97 \<le> (of_char c :: nat) \<and> (of_char c :: nat) \<le> 122))"

definition digit_val :: "char \<Rightarrow> int" where
  "digit_val c = int (of_char c) - 48"

definition dec_value :: "string \<Rightarrow> int" where
  "dec_value s = foldl (\<lambda>a c. 10 * a + digit_val c) 0 s"

text \<open>
  \<open>Number(s)\<close> on a string: the empty string is 0, a string of decimal digits is its
  value, and a string whose first character is a letter other than \<open>I\<close> matches no
  numeric literal (each starts with a digit, a sign, a dot, white space or the \<open>I\<close> of
  \<open>Infinity\<close>), so it is \<open>NaN\<close>. Every other string (signs, fractions, exponents,
  hexadecimal, white space) is left undecided.
\<close>

definition Number_js :: "string \<Rightarrow> jsnum" where
  "Number_js s =
     (if s = [] then Fin 0
      else if list_all is_digit s then Fin (dec_value s)
      else if is_letter (hd s) \<and> hd s \<noteq> CHR ''I'' then NaN
      else Other)"

text \<open>
  Destructuring \<open>[a, b, c] = parts.map(Number)\<close>: a missing element is \<open>undefined\<close>,
  which is \<open>NaN\<close> wherever it is used as a number.
\<close>

definition num_field :: "string list \<Rightarrow> nat \<Rightarrow> jsnum" where
  "num_field parts i = (if i < length parts then Number_js (parts ! i) else NaN)"

text \<open>\<open>month - 1\<close>.\<close>

fun minus_one :: "jsnum \<Rightarrow> jsnum" where
  "minus_one NaN = NaN"
| "minus_one (Fin n) = Fin (n - 1)"
| "minus_one Other = Other"

subsection \<open>\<open>Date.UTC\<close> (ECMA-262, 21.4.1 and 21.4.3.4)\<close>

definition msPerDay :: int where "msPerDay = 86400000"
definition msPerHour :: int where "msPerHour = 3600000"
definition msPerMinute :: int where "msPerMinute = 60000"
definition msPerSecond :: int where "msPerSecond = 1000"

definition DaysInYear :: "int \<Rightarrow> int" where
  "DaysInYear y =
     (if y mod 4 \<noteq> 0 then 365
      else if y mod 100 \<noteq> 0 then 366
      else if y mod 400 \<noteq> 0 then 365
      else 366)"

definition InLeapYear_of :: "int \<Rightarrow> int" where
  "InLeapYear_of y = (if DaysInYear y = 366 then 1 else 0)"

definition DayFromYear :: "int \<Rightarrow> int" where
  "DayFromYear y =
     365 * (y - 1970) + (y - 1969) div 4 - (y - 1901) div 100 + (y - 1601) div 400"

text \<open>The day within the year on which month \<open>m\<close> (0 to 11) starts.\<close>

definition month_start :: "int \<Rightarrow> int \<Rightarrow> int" where
  "month_start leap m =
     (if m = 0 then 0 else if m = 1 then 31 else if m = 2 then 59 + leap
      else if m = 3 then 90 + leap else if m = 4 then 120 + leap
      else if m = 5 then 151 + leap else if m = 6 then 181 + leap
      else if m = 7 then 212 + leap else if m = 8 then 243 + leap
      else if m = 9 then 273 + leap else if m = 10 then 304 + leap
      else 334 + leap)"

text \<open>
  \<open>MakeDay(year, month, date)\<close> on integers: the day number of the first of the month
  \<open>month mod 12\<close> of the year \<open>year + floor(month / 12)\<close>, plus \<open>date - 1\<close>.
\<close>

definition MakeDay :: "int \<Rightarrow> int \<Rightarrow> int \<Rightarrow> int" where
  "MakeDay year month date =
     (let ym = year + month div 12; mn = month mod 12
      in DayFromYear ym + month_start (InLeapYear_of ym) mn + date - 1)"

definition MakeTime :: "int \<Rightarrow> int \<Rightarrow> int \<Rightarrow> int \<Rightarrow> int" where
  "MakeTime hour minute sec ms =
     hour * msPerHour + minute * msPerMinute + sec * msPerSecond + ms"

definition MakeDate :: "int \<Rightarrow> int \<Rightarrow> int" where
  "MakeDate day time = day * msPerDay + time"

text \<open>\<open>TimeClip\<close>: a time value beyond 8.64e15 ms from the epoch is \<open>NaN\<close>.\<close>

definition TimeClip :: "int \<Rightarrow> jsnum" where
  "TimeClip t = (if abs t > 8640000000000000 then NaN else Fin t)"

text \<open>
  \<open>Date.UTC(year, month, day, hour, minute, 0)\<close>. A \<open>NaN\<close> argument gives \<open>NaN\<close>
  whatever the others are; a year from 0 to 99 means 1900 + year.
\<close>

fun Date_UTC :: "jsnum \<Rightarrow> jsnum \<Rightarrow> jsnum \<Rightarrow> jsnum \<Rightarrow> jsnum \<Rightarrow> jsnum" where
  "Date_UTC (Fin y) (Fin m) (Fin d) (Fin h) (Fin mi) =
     (let yr = (if 0 \<le> y \<and> y \<le> 99 then 1900 + y else y)
      in TimeClip (MakeDate (MakeDay yr m d) (MakeTime h mi 0 0)))"
| "Date_UTC y m d h mi =
     (if y = NaN \<or> m = NaN \<or> d = NaN \<or> h = NaN \<or> mi = NaN then NaN else Other)"

subsection \<open>\<open>toISOString\<close> (ECMA-262, 21.4.1 and 21.4.4.36)\<close>

definition Day :: "int \<Rightarrow> int" where
  "Day t = t div msPerDay"

text \<open>
  \<open>YearFromTime\<close> is the largest year \<open>y\<close> with \<open>DayFromYear y \<le> Day t\<close>. It is
  computed from the estimate \<open>1970 + floor(day / 365.2425)\<close>, which is off by one year
  at most.
\<close>

definition YearFromDay :: "int \<Rightarrow> int" where
  "YearFromDay d =
     (let y0 = 1970 + (d * 10000) div 3652425
      in if DayFromYear (y0 + 1) \<le> d then y0 + 1
         else if DayFromYear y0 \<le> d then y0
         else y0 - 1)"

definition YearFromTime :: "int \<Rightarrow> int" where
  "YearFromTime t = YearFromDay (Day t)"

definition DayWithinYear :: "int \<Rightarrow> int" where
  "DayWithinYear t = Day t - DayFromYear (YearFromTime t)"

definition InLeapYear :: "int \<Rightarrow> int" where
  "InLeapYear t = InLeapYear_of (YearFromTime t)"

definition MonthFromTime :: "int \<Rightarrow> int" where
  "MonthFromTime t =
     (let d = DayWithinYear t; l = InLeapYear t
      in if d < 31 then 0 else if d < 59 + l then 1 else if d < 90 + l then 2
         else if d < 120 + l then 3 else if d < 151 + l then 4
         else if d < 181 + l then 5 else if d < 212 + l then 6
         else if d < 243 + l then 7 else if d < 273 + l then 8
         else if d < 304 + l then 9 else if d < 334 + l then 10
         else 11)"

definition DateFromTime :: "int \<Rightarrow> int" where
  "DateFromTime t =
     DayWithinYear t - month_start (InLeapYear t) (MonthFromTime t) + 1"

definition HourFromTime :: "int \<Rightarrow> int" where
  "HourFromTime t = (t div msPerHour) mod 24"

definition MinFromTime :: "int \<Rightarrow> int" where
  "MinFromTime t = (t div msPerMinute) mod 60"

definition SecFromTime :: "int \<Rightarrow> int" where
  "SecFromTime t = (t div msPerSecond) mod 60"

definition msFromTime :: "int \<Rightarrow> int" where
  "msFromTime t = t mod msPerSecond"

definition digit_char :: "nat \<Rightarrow> char" where
  "digit_char n = char_of (48 + n mod 10)"

text \<open>\<open>pad w n\<close>: the last \<open>w\<close> decimal digits of \<open>n\<close>, zero-padded on the left.\<close>

primrec pad :: "nat \<Rightarrow> nat \<Rightarrow> string" where
  "pad 0 n = []"
| "pad (Suc w) n = pad w (n div 10) @ [digit_char n]"

text \<open>
  The year of an ISO string: four digits from 0 to 9999, otherwise a sign and six
  digits.
\<close>

definition iso_year :: "int \<Rightarrow> string" where
  "iso_year y =
     (if 0 \<le> y \<and> y \<le> 9999 then pad 4 (nat y)
      else if y < 0 then CHR ''-'' # pad 6 (nat (- y))
      else CHR ''+'' # pad 6 (nat y))"

definition iso_string :: "int \<Rightarrow> string" where
  "iso_string t =
     iso_year (YearFromTime t) @ ''-'' @ pad 2 (nat (MonthFromTime t + 1)) @ ''-''
       @ pad 2 (nat (DateFromTime t)) @ ''T'' @ pad 2 (nat (HourFromTime t)) @ '':''
       @ pad 2 (nat (MinFromTime t)) @ '':'' @ pad 2 (nat (SecFromTime t)) @ ''.''
       @ pad 3 (nat (msFromTime t)) @ ''Z''"

text \<open>
  The message of the \<open>RangeError\<close> that \<open>toISOString\<close> throws on an invalid date, in
  V8's wording (other engines word it differently).
\<close>

definition invalid_time_message :: string where
  "invalid_time_message = ''Invalid time value''"

fun toISOString :: "jsnum \<Rightarrow> string outcome" where
  "toISOString NaN = Throws invalid_time_message"
| "toISOString (Fin t) = Returns (iso_string t)"
| "toISOString Other = Unmodelled"

section \<open>The time normalizer\<close>

text \<open>
  \<open>combineDateTime\<close> (App.jsx, lines 111-117). \<open>null\<close> is \<open>None\<close>; \<open>!dateStr\<close> on a
  string holds exactly for the empty string.
\<close>

definition combineDateTime :: "string \<Rightarrow> string \<Rightarrow> string option outcome" where
  "combineDateTime dateStr timeStr =
     (if dateStr = [] \<or> timeStr = [] then Returns None
      else
        let ds = split_js CHR ''-'' dateStr;
            ts = split_js CHR '':'' timeStr;
            year = num_field ds 0; month = num_field ds 1; day = num_field ds 2;
            hour = num_field ts 0; minute = num_field ts 1
        in (case toISOString (Date_UTC year (minus_one month) day hour minute) of
              Returns str \<Rightarrow> Returns (Some str)
            | Throws e \<Rightarrow> Throws e
            | Unmodelled \<Rightarrow> Unmodelled))"

section \<open>The state of the component\<close>

text \<open>
  The values held by \<open>useState\<close> in \<open>App\<close> (lines 42-59). Identifiers and names are
  strings; a price and a duration are integers, and \<open>0\<close> is the falsy one.
\<close>

record barber =
  b_id :: string
  b_name :: string

record service =
  s_name :: string
  s_price :: int
  s_duration_min :: int

record appointment =
  a_id :: string
  a_customer_name :: string
  a_customer_phone :: string
  a_barber_id :: string
  a_service_name :: string
  a_start_time :: string
  a_end_time :: string
  a_status :: string

record form =
  customer_name :: string
  customer_phone :: string
  barber_id :: string
  service_name :: string
  start_date :: string
  start_time :: string
  "notes" :: string

record availability =
  "checking" :: bool
  available :: "bool option"
  message :: string

record app =
  loading :: bool
  error :: string
  barbers :: "barber list"
  services :: "service list"
  appointments :: "appointment list"
  availability :: availability
  form :: form

definition neutral :: availability where
  "neutral = \<lparr>checking = False, available = None, message = []\<rparr>"

definition initial_form :: form where
  "initial_form = \<lparr>customer_name = [], customer_phone = [], barber_id = [],
     service_name = [], start_date = [], start_time = [], notes = []\<rparr>"

definition initial_app :: app where
  "initial_app = \<lparr>loading = False, error = [], barbers = [], services = [],
     appointments = [], availability = neutral, form = initial_form\<rparr>"

text \<open>
  \<open>selectedService?.duration_min || 30\<close> (lines 61-62): the duration of the first
  service with the selected name, 30 when there is none or its duration is falsy.
\<close>

definition duration_min :: "app \<Rightarrow> int" where
  "duration_min s =
     (case find (\<lambda>sv. s_name sv = service_name (form s)) (services s) of
        None \<Rightarrow> 30
      | Some sv \<Rightarrow> (if s_duration_min sv = 0 then 30 else s_duration_min sv))"

section \<open>The backend\<close>

text \<open>
  Every \<open>fetch\<close> is a request, and the backend decides what comes back. The replies
  are kept as far as the component tells them apart.
\<close>

record query =
  q_barber_id :: string
  q_start_time :: string
  q_duration_min :: int

record payload =
  p_customer_name :: string
  p_customer_phone :: string
  p_barber_id :: string
  p_service_name :: string
  p_start_time :: string
  p_duration_min :: int
  p_notes :: "string option"

datatype request =
    GetBarbers
  | GetServices
  | GetAppointments
  | GetCheck query
  | PostAppointment payload
  | PatchCancel string

text \<open>
  A \<open>GET\<close> whose status the component never reads: \<open>fetch\<close> rejects, or \<open>json()\<close>
  throws, or the body is the data.
\<close>

datatype 'a get_reply = GetRejects string | GetBodyThrows string | GetData 'a

text \<open>
  The availability check: \<open>fetch\<close> rejects with a message; the response is not
  \<open>ok\<close>; reading the body throws (\<open>json()\<close> fails, or the body is \<open>null\<close>); or the
  body's \<open>available\<close> is truthy or falsy.
\<close>

datatype check_reply =
    CheckRejects string
  | CheckNotOk
  | CheckBodyThrows string
  | CheckData bool

text \<open>
  The body of a refused creation: not JSON; \<open>null\<close>, so that reading \<open>detail\<close>
  throws; or an object, with its \<open>detail\<close> as a string (empty when falsy or absent).
\<close>

datatype err_body = ErrNotJson | ErrNull string | ErrDetail string

datatype create_reply =
    CreateRejects string
  | CreateNotOk err_body
  | CreateOkBodyThrows string
  | CreateOk

datatype cancel_reply = CancelRejects string | CancelNotOk | CancelOk

record backend =
  on_barbers :: "barber list get_reply"
  on_services :: "service list get_reply"
  on_appointments :: "appointment list get_reply"
  on_check :: "query \<Rightarrow> check_reply"
  on_create :: "payload \<Rightarrow> create_reply"
  on_cancel :: "string \<Rightarrow> cancel_reply"

section \<open>The operations\<close>

text \<open>
  An operation takes the state of the render that created it and gives the state after
  all its \<open>set...\<close> calls, with the requests it sent, in order.
\<close>

subsection \<open>\<open>fetchAppointments\<close> (lines 90-98)\<close>

definition fetchAppointments :: "backend \<Rightarrow> app \<Rightarrow> app \<times> request list" where
  "fetchAppointments w s =
     (case on_appointments w of
        GetData d \<Rightarrow> (s\<lparr>appointments := d\<rparr>, [GetAppointments])
      | GetRejects e \<Rightarrow> (s, [GetAppointments])
      | GetBodyThrows e \<Rightarrow> (s, [GetAppointments]))"

subsection \<open>\<open>handleChange\<close> (lines 106-109)\<close>

datatype field_name =
    Customer_name | Customer_phone | Barber_id | Service_name
  | Start_date | Start_time | Notes

fun set_field :: "field_name \<Rightarrow> string \<Rightarrow> form \<Rightarrow> form" where
  "set_field Customer_name v f = f\<lparr>customer_name := v\<rparr>"
| "set_field Customer_phone v f = f\<lparr>customer_phone := v\<rparr>"
| "set_field Barber_id v f = f\<lparr>barber_id := v\<rparr>"
| "set_field Service_name v f = f\<lparr>service_name := v\<rparr>"
| "set_field Start_date v f = f\<lparr>start_date := v\<rparr>"
| "set_field Start_time v f = f\<lparr>start_time := v\<rparr>"
| "set_field Notes v f = f\<lparr>notes := v\<rparr>"

definition handleChange :: "field_name \<Rightarrow> string \<Rightarrow> app \<Rightarrow> app" where
  "handleChange n v s = s\<lparr>form := set_field n v (form s)\<rparr>"

subsection \<open>\<open>checkAvailability\<close> (lines 120-140)\<close>

definition query_for :: "app \<Rightarrow> string \<Rightarrow> string \<Rightarrow> query" where
  "query_for s bid startIso =
     \<lparr>q_barber_id = bid, q_start_time = startIso, q_duration_min = duration_min s\<rparr>"

text \<open>
  Up to the \<open>await fetch\<close>: the state after the synchronous part, and the query sent,
  if one is. \<open>combineDateTime\<close> is called before the \<open>try\<close>, so its error leaves the
  function.
\<close>

definition checkAvailability_issue :: "app \<Rightarrow> (app \<times> query option) outcome" where
  "checkAvailability_issue s =
     (case combineDateTime (start_date (form s)) (start_time (form s)) of
        Throws e \<Rightarrow> Throws e
      | Unmodelled \<Rightarrow> Unmodelled
      | Returns None \<Rightarrow> Returns (s\<lparr>availability := neutral\<rparr>, None)
      | Returns (Some startIso) \<Rightarrow>
          (if barber_id (form s) = [] \<or> duration_min s = 0
           then Returns (s\<lparr>availability := neutral\<rparr>, None)
           else Returns
             (s\<lparr>availability := \<lparr>checking = True, available = None, message = []\<rparr>\<rparr>,
              Some (query_for s (barber_id (form s)) startIso))))"

text \<open>After the \<open>await\<close>: what the reply makes of the availability status.\<close>

fun status_of :: "check_reply \<Rightarrow> availability" where
  "status_of (CheckData a) =
     \<lparr>checking = False, available = Some a,
      message = (if a then ''Time is available'' else ''Time slot not available'')\<rparr>"
| "status_of r =
     \<lparr>checking = False, available = None, message = ''Unable to check availability''\<rparr>"

definition checkAvailability_settle :: "check_reply \<Rightarrow> app \<Rightarrow> app" where
  "checkAvailability_settle r s = s\<lparr>availability := status_of r\<rparr>"

definition checkAvailability :: "backend \<Rightarrow> app \<Rightarrow> (app \<times> request list) outcome" where
  "checkAvailability w s =
     (case checkAvailability_issue s of
        Throws e \<Rightarrow> Throws e
      | Unmodelled \<Rightarrow> Unmodelled
      | Returns (s1, None) \<Rightarrow> Returns (s1, [])
      | Returns (s1, Some q) \<Rightarrow>
          Returns (checkAvailability_settle (on_check w q) s1, [GetCheck q]))"

subsection \<open>\<open>filterBarbersByAvailability\<close> (lines 143-163)\<close>

text \<open>One callback of \<open>allBarbers.map\<close>: it rejects (\<open>Inl\<close>) or gives its check.\<close>

fun fanout_check :: "barber \<Rightarrow> check_reply \<Rightarrow> string + (barber \<times> bool)" where
  "fanout_check b (CheckRejects e) = Inl e"
| "fanout_check b CheckNotOk = Inr (b, True)"
| "fanout_check b (CheckBodyThrows e) = Inl e"
| "fanout_check b (CheckData a) = Inr (b, a)"

text \<open>
  \<open>Promise.all\<close>: all the values, or a rejection as soon as one promise rejects (the
  \<open>catch\<close> of the caller has no binding, so which one is not observed).
\<close>

fun Promise_all :: "(string + 'a) list \<Rightarrow> string + 'a list" where
  "Promise_all [] = Inr []"
| "Promise_all (Inl e # ps) = Inl e"
| "Promise_all (Inr v # ps) =
     (case Promise_all ps of Inl e \<Rightarrow> Inl e | Inr vs \<Rightarrow> Inr (v # vs))"

text \<open>
  Every callback calls \<open>fetch\<close> before its first \<open>await\<close>, so one check per barber is
  sent whatever the replies are.
\<close>

definition filterBarbersByAvailability ::
  "backend \<Rightarrow> app \<Rightarrow> barber list \<Rightarrow> (barber list \<times> request list) outcome" where
  "filterBarbersByAvailability w s allBarbers =
     (case combineDateTime (start_date (form s)) (start_time (form s)) of
        Throws e \<Rightarrow> Throws e
      | Unmodelled \<Rightarrow> Unmodelled
      | Returns None \<Rightarrow> Returns (allBarbers, [])
      | Returns (Some startIso) \<Rightarrow>
          (if duration_min s = 0 then Returns (allBarbers, [])
           else
             let sent = map (\<lambda>b. GetCheck (query_for s (b_id b) startIso)) allBarbers
             in (case Promise_all
                       (map (\<lambda>b. fanout_check b (on_check w (query_for s (b_id b) startIso)))
                          allBarbers) of
                   Inr checks \<Rightarrow> Returns (map fst (filter snd checks), sent)
                 | Inl e \<Rightarrow> Returns (allBarbers, sent))))"

subsection \<open>The effect on the inputs (lines 166-178)\<close>

text \<open>\<open>filtered[0]?.id || ''\<close>.\<close>

definition first_id :: "barber list \<Rightarrow> string" where
  "first_id bs = (case bs of [] \<Rightarrow> [] | b # _ \<Rightarrow> b_id b)"

text \<open>
  The asynchronous function the effect calls at once: it filters the barbers of the
  state (the default of the parameter \<open>allBarbers\<close>) and fixes the selection up.
\<close>

definition refilter :: "backend \<Rightarrow> app \<Rightarrow> (app \<times> request list) outcome" where
  "refilter w s =
     (case filterBarbersByAvailability w s (barbers s) of
        Throws e \<Rightarrow> Throws e
      | Unmodelled \<Rightarrow> Unmodelled
      | Returns (filtered, sent) \<Rightarrow>
          Returns
            (if barber_id (form s) \<noteq> []
                \<and> find (\<lambda>b. b_id b = barber_id (form s)) filtered = None
             then s\<lparr>barbers := filtered, form := (form s)\<lparr>barber_id := first_id filtered\<rparr>\<rparr>
             else s\<lparr>barbers := filtered\<rparr>,
             sent))"

text \<open>
  The effect starts \<open>checkAvailability\<close> and the function above on the same render;
  the first writes the availability status only, the second the barbers and the form.
\<close>

definition availability_effect :: "backend \<Rightarrow> app \<Rightarrow> (app \<times> request list) outcome" where
  "availability_effect w s =
     (case checkAvailability w s of
        Throws e \<Rightarrow> Throws e
      | Unmodelled \<Rightarrow> Unmodelled
      | Returns (s1, sent1) \<Rightarrow>
          (case refilter w s of
             Throws e \<Rightarrow> Throws e
           | Unmodelled \<Rightarrow> Unmodelled
           | Returns (s2, sent2) \<Rightarrow>
               Returns (s2\<lparr>availability := availability s1\<rparr>, sent1 @ sent2)))"

subsection \<open>\<open>fetchCatalog\<close> (lines 64-88)\<close>

definition first_name :: "service list \<Rightarrow> string" where
  "first_name svs = (case svs of [] \<Rightarrow> [] | sv # _ \<Rightarrow> s_name sv)"

definition failed_to_load :: string where
  "failed_to_load = ''Failed to load barbers/services''"

definition fetchCatalog :: "backend \<Rightarrow> app \<Rightarrow> (app \<times> request list) outcome" where
  "fetchCatalog w s =
     (case (on_barbers w, on_services w) of
        (GetData bData, GetData sData) \<Rightarrow>
          (case filterBarbersByAvailability w s bData of
             Unmodelled \<Rightarrow> Unmodelled
           | Throws e \<Rightarrow> Returns (s\<lparr>error := failed_to_load\<rparr>, [GetBarbers, GetServices])
           | Returns (filteredBarbers, sent) \<Rightarrow>
               let s1 = s\<lparr>barbers := filteredBarbers,
                          services :=
                            map (\<lambda>sv. if s_name sv = ''Haircut'' then sv\<lparr>s_price := 18\<rparr> else sv)
                              sData\<rparr>;
                   s2 = (if barber_id (form s) = [] \<and> first_id filteredBarbers \<noteq> []
                         then s1\<lparr>form := (form s1)\<lparr>barber_id := first_id filteredBarbers\<rparr>\<rparr>
                         else s1);
                   s3 = (if service_name (form s) = [] \<and> first_name sData \<noteq> []
                         then s2\<lparr>form := (form s2)\<lparr>service_name := first_name sData\<rparr>\<rparr>
                         else s2)
               in Returns (s3, [GetBarbers, GetServices] @ sent))
      | _ \<Rightarrow> Returns (s\<lparr>error := failed_to_load\<rparr>, [GetBarbers, GetServices]))"

subsection \<open>\<open>submit\<close> (lines 180-237)\<close>

definition failed_to_book :: string where
  "failed_to_book = ''Failed to book appointment''"

text \<open>The message of the error thrown at line 226.\<close>

fun refusal_message :: "err_body \<Rightarrow> string" where
  "refusal_message ErrNotJson = failed_to_book"
| "refusal_message (ErrNull e) = e"
| "refusal_message (ErrDetail d) = (if d = [] then failed_to_book else d)"

definition payload_of :: "app \<Rightarrow> string \<Rightarrow> payload" where
  "payload_of s startIso =
     \<lparr>p_customer_name = customer_name (form s),
      p_customer_phone = customer_phone (form s),
      p_barber_id = barber_id (form s),
      p_service_name = service_name (form s),
      p_start_time = startIso,
      p_duration_min = duration_min s,
      p_notes = (if notes (form s) = [] then None else Some (notes (form s)))\<rparr>"

text \<open>The \<open>catch\<close> and the \<open>finally\<close> of \<open>submit\<close>, after \<open>setLoading(true)\<close> and \<open>setError('')\<close>.\<close>

definition caught :: "app \<Rightarrow> string \<Rightarrow> app" where
  "caught s e = s\<lparr>loading := False, error := e\<rparr>"

definition submit :: "backend \<Rightarrow> app \<Rightarrow> (app \<times> request list) outcome" where
  "submit w s =
     (case combineDateTime (start_date (form s)) (start_time (form s)) of
        Unmodelled \<Rightarrow> Unmodelled
      | Throws e \<Rightarrow> Returns (caught s e, [])
      | Returns None \<Rightarrow> Returns (s\<lparr>loading := False, error := ''Please select a date and time''\<rparr>, [])
      | Returns (Some startIso) \<Rightarrow>
          let q = query_for s (barber_id (form s)) startIso
          in (case on_check w q of
                CheckRejects e \<Rightarrow> Returns (caught s e, [GetCheck q])
              | CheckNotOk \<Rightarrow> Returns (caught s ''Unable to verify availability'', [GetCheck q])
              | CheckBodyThrows e \<Rightarrow> Returns (caught s e, [GetCheck q])
              | CheckData a \<Rightarrow>
                  (if \<not> a then
                     let (s1, sent) =
                           fetchAppointments w
                             (s\<lparr>loading := False,
                                error := ''That time was just taken. Please choose another slot.''\<rparr>)
                     in Returns (s1, GetCheck q # sent)
                   else
                     let p = payload_of s startIso
                     in (case on_create w p of
                           CreateRejects e \<Rightarrow> Returns (caught s e, [GetCheck q, PostAppointment p])
                         | CreateNotOk b \<Rightarrow>
                             Returns (caught s (refusal_message b), [GetCheck q, PostAppointment p])
                         | CreateOkBodyThrows e \<Rightarrow>
                             Returns (caught s e, [GetCheck q, PostAppointment p])
                         | CreateOk \<Rightarrow>
                             let (s1, sent) = fetchAppointments w (s\<lparr>error := []\<rparr>)
                             in Returns
                                  (s1\<lparr>form := (form s1)\<lparr>start_date := [], start_time := [], notes := []\<rparr>,
                                      availability := neutral, loading := False\<rparr>,
                                   [GetCheck q, PostAppointment p] @ sent)))))"



subsection \<open>\<open>cancel\<close> (lines 239-247)\<close>

definition cancel :: "backend \<Rightarrow> app \<Rightarrow> string \<Rightarrow> app \<times> request list" where
  "cancel w s ident =
     (case on_cancel w ident of
        CancelRejects e \<Rightarrow> (s\<lparr>error := e\<rparr>, [PatchCancel ident])
      | CancelNotOk \<Rightarrow> (s\<lparr>error := ''Failed to cancel appointment''\<rparr>, [PatchCancel ident])
      | CancelOk \<Rightarrow>
          (let (s1, sent) = fetchAppointments w s in (s1, PatchCancel ident # sent)))"

section \<open>Probes in flight\<close>

text \<open>
  The user may edit the form while a reply of \<open>checkAvailability\<close> is awaited. The
  events below are those of the availability probe: an edit of a field
  (\<open>handleChange\<close>, after which React runs the effect when one of its dependencies has
  changed, line 178, and the effect starts \<open>checkAvailability\<close> on the new render), and
  the arrival of the reply to a probe still in flight, which resumes that call after its
  \<open>await\<close>. The probes in flight are kept in the order they were sent.
\<close>

record ui =
  shown :: app
  in_flight :: "query list"

datatype event = Change field_name string | Reply nat

text \<open>The dependency array of the effect.\<close>

definition effect_deps :: "app \<Rightarrow> string \<times> string \<times> string \<times> int" where
  "effect_deps s =
     (service_name (form s), start_date (form s), start_time (form s), duration_min s)"

definition remove_nth :: "nat \<Rightarrow> 'a list \<Rightarrow> 'a list" where
  "remove_nth k xs = take k xs @ drop (Suc k) xs"

text \<open>
  An error of \<open>combineDateTime\<close> inside \<open>checkAvailability\<close> rejects a promise nobody
  awaits: the edit stays and nothing else changes.
\<close>

fun step :: "backend \<Rightarrow> event \<Rightarrow> ui \<Rightarrow> ui outcome" where
  "step w (Change n v) u =
     (let s1 = handleChange n v (shown u)
      in if effect_deps s1 = effect_deps (shown u) then Returns (u\<lparr>shown := s1\<rparr>)
         else (case checkAvailability_issue s1 of
                 Throws e \<Rightarrow> Returns (u\<lparr>shown := s1\<rparr>)
               | Unmodelled \<Rightarrow> Unmodelled
               | Returns (s2, None) \<Rightarrow> Returns (u\<lparr>shown := s2\<rparr>)
               | Returns (s2, Some q) \<Rightarrow>
                   Returns \<lparr>shown = s2, in_flight = in_flight u @ [q]\<rparr>))"
| "step w (Reply k) u =
     (if k < length (in_flight u)
      then Returns
             \<lparr>shown = checkAvailability_settle (on_check w (in_flight u ! k)) (shown u),
              in_flight = remove_nth k (in_flight u)\<rparr>
      else Returns u)"

fun run :: "backend \<Rightarrow> event list \<Rightarrow> ui \<Rightarrow> ui outcome" where
  "run w [] u = Returns u"
| "run w (e # es) u =
     (case step w e u of
        Returns u1 \<Rightarrow> run w es u1
      | Throws x \<Rightarrow> Throws x
      | Unmodelled \<Rightarrow> Unmodelled)"

text \<open>
  The status shown is up to date when it is the one a probe for the draft as it stands
  would leave.
\<close>

definition up_to_date :: "backend \<Rightarrow> app \<Rightarrow> bool" where
  "up_to_date w s =
     (case checkAvailability w s of
        Returns (s1, sent) \<Rightarrow> availability s = availability s1
      | Throws e \<Rightarrow> True
      | Unmodelled \<Rightarrow> True)"

section \<open>Calendar dates\<close>

text \<open>The days of month \<open>m\<close> (1 to 12) of year \<open>y\<close>.\<close>

definition days_in_month :: "int \<Rightarrow> int \<Rightarrow> int" where
  "days_in_month y m =
     (if m = 2 then 28 + InLeapYear_of y
      else if m = 4 \<or> m = 6 \<or> m = 9 \<or> m = 11 then 30
      else 31)"

section \<open>Replies read by the fan-out\<close>

text \<open>
  A reply rejects a callback of the fan-out when \<open>fetch\<close> or reading the body throws;
  otherwise it counts as available unless the body says it is not.
\<close>

fun rejects :: "check_reply \<Rightarrow> bool" where
  "rejects (CheckRejects e) = True"
| "rejects (CheckBodyThrows e) = True"
| "rejects r = False"

fun open_answer :: "check_reply \<Rightarrow> bool" where
  "open_answer (CheckData a) = a"
| "open_answer r = True"

section \<open>A session\<close>

text \<open>
  The catalog of scenario A of the specification: two barbers and a service of 30
  minutes, a customer who picks 2024-06-01 at 10:00 with barber B.
\<close>

definition barber_a :: barber where
  "barber_a = \<lparr>b_id = ''a'', b_name = ''Barber A''\<rparr>"

definition barber_b :: barber where
  "barber_b = \<lparr>b_id = ''b'', b_name = ''Barber B''\<rparr>"

definition haircut :: service where
  "haircut = \<lparr>s_name = ''Haircut'', s_price = 25, s_duration_min = 30\<rparr>"

definition shave :: service where
  "shave = \<lparr>s_name = ''Shave'', s_price = 12, s_duration_min = 15\<rparr>"

definition booked :: appointment where
  "booked = \<lparr>a_id = ''1'', a_customer_name = ''Alex Doe'', a_customer_phone = ''5551234567'',
     a_barber_id = ''a'', a_service_name = ''Haircut'',
     a_start_time = ''2024-06-01T10:00:00.000Z'', a_end_time = ''2024-06-01T10:30:00.000Z'',
     a_status = ''booked''\<rparr>"

definition draft :: form where
  "draft = \<lparr>customer_name = ''Alex Doe'', customer_phone = ''5551234567'', barber_id = ''b'',
     service_name = ''Haircut'', start_date = ''2024-06-01'', start_time = ''10:00'',
     notes = ''fade''\<rparr>"

definition session :: app where
  "session = \<lparr>loading = False, error = [], barbers = [barber_a, barber_b],
     services = [haircut, shave], appointments = [], availability = neutral, form = draft\<rparr>"

definition ten :: string where
  "ten = ''2024-06-01T10:00:00.000Z''"

definition eleven :: string where
  "eleven = ''2024-06-01T11:00:00.000Z''"

text \<open>A backend that answers the checks by \<open>chk\<close> and accepts everything else.\<close>

definition ledger :: "(query \<Rightarrow> check_reply) \<Rightarrow> backend" where
  "ledger chk = \<lparr>on_barbers = GetData [barber_a, barber_b],
     on_services = GetData [haircut, shave], on_appointments = GetData [booked],
     on_check = chk, on_create = (\<lambda>p. CreateOk),
     on_cancel = (\<lambda>i. if i = ''1'' then CancelOk else CancelNotOk)\<rparr>"

text \<open>Barber B is taken at ten and free otherwise; barber A is free.\<close>

definition b_busy_at_ten :: "query \<Rightarrow> check_reply" where
  "b_busy_at_ten q = CheckData (\<not> (q_barber_id q = ''b'' \<and> q_start_time q = ten))"

text \<open>Checks that fail: the network is down, or the server answers with an error status.\<close>

definition unreachable :: "query \<Rightarrow> check_reply" where
  "unreachable q = CheckRejects ''Failed to fetch''"

definition refusing :: "query \<Rightarrow> check_reply" where
  "refusing q = CheckNotOk"


text \<open>The same session with barber A selected, with no barber selected, and before a date is picked.\<close>

definition with_barber_a :: app where
  "with_barber_a = session\<lparr>form := draft\<lparr>barber_id := ''a''\<rparr>\<rparr>"


definition no_date :: ui where
  "no_date = \<lparr>shown = session\<lparr>form := draft\<lparr>start_date := [], start_time := []\<rparr>\<rparr>,
     in_flight = []\<rparr>"

text \<open>
  The customer picks the date, types ten, then eleven; the reply for eleven arrives
  before the reply for ten.
\<close>

definition typed_twice :: "event list" where
  "typed_twice = [Change Start_date ''2024-06-01'', Change Start_time ''10:00'',
     Change Start_time ''11:00'']"

definition late_reply :: "event list" where
  "late_reply = typed_twice @ [Reply 1, Reply 0]"

definition after_late_reply :: ui where
  "after_late_reply =
     \<lparr>shown = session\<lparr>form := draft\<lparr>start_time := ''11:00''\<rparr>,
        availability := \<lparr>checking = False, available = Some False,
          message = ''Time slot not available''\<rparr>\<rparr>,
      in_flight = []\<rparr>"

section \<open>Arithmetic of the calendar\<close>

lemma div_bounds:
  fixes x k :: int
  assumes "0 < k"
  shows "k * (x div k) \<le> x" and "x \<le> k * (x div k) + (k - 1)"
proof -
  have "x = k * (x div k) + x mod k" by simp
  moreover have "0 \<le> x mod k" "x mod k < k" using assms by simp_all
  ultimately show "k * (x div k) \<le> x" and "x \<le> k * (x div k) + (k - 1)" by linarith+
qed

lemma div_step:
  fixes x k :: int
  assumes "1 < k"
  shows "(x + 1) div k = x div k + (if (x + 1) mod k = 0 then 1 else 0)"
proof -
  have e2: "x = k * (x div k) + x mod k" by simp
  have b2: "0 \<le> x mod k" "x mod k < k" using assms by simp_all
  show ?thesis
  proof (cases "x mod k = k - 1")
    case True
    with e2 have "x + 1 = k * (x div k + 1) + 0" by (simp add: algebra_simps)
    then have "(x + 1) div k = x div k + 1" "(x + 1) mod k = 0"
      using assms int_div_pos_eq [of "x + 1" k "x div k + 1" 0]
        int_mod_pos_eq [of "x + 1" k "x div k + 1" 0] by simp_all
    then show ?thesis by simp
  next
    case False
    with b2 have lt: "x mod k + 1 < k" by linarith
    from e2 have "x + 1 = k * (x div k) + (x mod k + 1)" by simp
    then have "(x + 1) div k = x div k" "(x + 1) mod k = x mod k + 1"
      using lt b2 int_div_pos_eq [of "x + 1" k "x div k" "x mod k + 1"]
        int_mod_pos_eq [of "x + 1" k "x div k" "x mod k + 1"] by simp_all
    with b2 show ?thesis by simp
  qed
qed

lemma mod_shift:
  fixes y :: int
  shows "(y - 1968) mod 4 = y mod 4" "(y - 1900) mod 100 = y mod 100" "(y - 1600) mod 400 = y mod 400"
proof -
  have "y - 1968 = y + (- 492) * 4" "y - 1900 = y + (- 19) * 100" "y - 1600 = y + (- 4) * 400"
    by simp_all
  then show "(y - 1968) mod 4 = y mod 4" "(y - 1900) mod 100 = y mod 100"
     "(y - 1600) mod 400 = y mod 400"
    by (simp_all only: mod_mult_self1)
qed

lemma mod_chain:
  fixes y :: int
  shows "y mod 100 = 0 \<Longrightarrow> y mod 4 = 0" "y mod 400 = 0 \<Longrightarrow> y mod 100 = 0"
proof -
  have "y mod 100 mod 4 = y mod 4" "y mod 400 mod 100 = y mod 100"
    by (simp_all add: mod_mod_cancel)
  then show "y mod 100 = 0 \<Longrightarrow> y mod 4 = 0" "y mod 400 = 0 \<Longrightarrow> y mod 100 = 0"
    by simp_all
qed

lemma DayFromYear_Suc: "DayFromYear (y + 1) = DayFromYear y + DaysInYear y"
proof -
  define a b c where "a = (y - 1969) div 4" and "b = (y - 1901) div 100"
    and "c = (y - 1601) div 400"
  have a: "(y - 1968) div 4 = a + (if y mod 4 = 0 then 1 else 0)"
    using div_step [of 4 "y - 1969"] by (simp add: mod_shift a_def)
  have b: "(y - 1900) div 100 = b + (if y mod 100 = 0 then 1 else 0)"
    using div_step [of 100 "y - 1901"] by (simp add: mod_shift b_def)
  have c: "(y - 1600) div 400 = c + (if y mod 400 = 0 then 1 else 0)"
    using div_step [of 400 "y - 1601"] by (simp add: mod_shift c_def)
  have l: "DayFromYear (y + 1) =
      365 * y - 718685 + (y - 1968) div 4 - (y - 1900) div 100 + (y - 1600) div 400"
    by (simp add: DayFromYear_def)
  have r: "DayFromYear y = 365 * y - 719050 + a - b + c"
    by (simp add: DayFromYear_def a_def b_def c_def)
  consider (n4) "y mod 4 \<noteq> 0" | (n100) "y mod 4 = 0" "y mod 100 \<noteq> 0"
    | (n400) "y mod 4 = 0" "y mod 100 = 0" "y mod 400 \<noteq> 0" | (d400) "y mod 400 = 0"
    by argo
  then show ?thesis
  proof cases
    case n4
    with mod_chain [of y] have "y mod 100 \<noteq> 0" "y mod 400 \<noteq> 0" by auto
    with n4 show ?thesis unfolding l r a b c by (simp add: DaysInYear_def)
  next
    case n100
    with mod_chain [of y] have "y mod 400 \<noteq> 0" by auto
    with n100 show ?thesis unfolding l r a b c by (simp add: DaysInYear_def)
  next
    case n400
    then show ?thesis unfolding l r a b c by (simp add: DaysInYear_def)
  next
    case d400
    with mod_chain [of y] have "y mod 100 = 0" "y mod 4 = 0" by auto
    with d400 show ?thesis unfolding l r a b c by (simp add: DaysInYear_def)
  qed
qed

lemma year_estimate:
  assumes "DayFromYear y \<le> d" "d < DayFromYear (y + 1)"
  shows "y - 1 \<le> 1970 + (d * 10000) div 3652425 \<and> 1970 + (d * 10000) div 3652425 \<le> y + 1"
proof -
  define a b c q where "a = (y - 1969) div 4" and "b = (y - 1901) div 100"
    and "c = (y - 1601) div 400" and "q = (10000 * d) div 3652425"
  have ba: "4 * a \<le> y - 1969" "y - 1969 \<le> 4 * a + 3"
    unfolding a_def using div_bounds [of 4 "y - 1969"] by simp_all
  have bb: "100 * b \<le> y - 1901" "y - 1901 \<le> 100 * b + 99"
    unfolding b_def using div_bounds [of 100 "y - 1901"] by simp_all
  have bc: "400 * c \<le> y - 1601" "y - 1601 \<le> 400 * c + 399"
    unfolding c_def using div_bounds [of 400 "y - 1601"] by simp_all
  have bq: "3652425 * q \<le> 10000 * d" "10000 * d \<le> 3652425 * q + 3652424"
    unfolding q_def using div_bounds [of 3652425 "10000 * d"] by simp_all
  have r: "DayFromYear y = 365 * y - 719050 + a - b + c"
    by (simp add: DayFromYear_def a_def b_def c_def)
  have lo: "365 * y - 719050 + a - b + c \<le> d"
    using assms(1) unfolding r .
  have "DaysInYear y \<le> 366" by (simp add: DaysInYear_def)
  with assms(2) have hi: "d \<le> 365 * y - 719050 + a - b + c + 365"
    unfolding DayFromYear_Suc r by linarith
  have l1: "146097 * y - 287811596 \<le> 400 * d"
    using ba(2) bb(1) bc(2) lo by linarith
  have h1: "400 * d \<le> 146097 * y - 287664100"
    using ba(1) bb(2) bc(1) hi by linarith
  have "y - 1 \<le> 1970 + q"
    using l1 bq(2) by linarith
  moreover have "1970 + q \<le> y + 1"
    using h1 bq(1) by linarith
  ultimately show ?thesis by (simp add: q_def mult.commute)
qed

lemma DaysInYear_bounds: "365 \<le> DaysInYear y" "DaysInYear y \<le> 366"
  by (simp_all add: DaysInYear_def)

lemma YearFromDay_eq:
  assumes "DayFromYear y \<le> d" "d < DayFromYear (y + 1)"
  shows "YearFromDay d = y"
proof -
  define y0 where "y0 = 1970 + (d * 10000) div 3652425"
  have est: "y - 1 \<le> y0" "y0 \<le> y + 1"
    using year_estimate [OF assms] by (simp_all add: y0_def)
  have next2: "d < DayFromYear (y + 2)"
    using DayFromYear_Suc [of "y + 1"] DaysInYear_bounds(1) [of "y + 1"] assms(2)
    by (simp add: add.commute)
  have yfd: "YearFromDay d =
      (if DayFromYear (y0 + 1) \<le> d then y0 + 1 else if DayFromYear y0 \<le> d then y0 else y0 - 1)"
    by (simp add: YearFromDay_def y0_def Let_def)
  from est consider "y0 = y - 1" | "y0 = y" | "y0 = y + 1" by linarith
  then show ?thesis
  proof cases
    case 1
    with assms(1) show ?thesis unfolding yfd by simp
  next
    case 2
    with assms show ?thesis unfolding yfd by simp
  next
    case 3
    with assms next2 show ?thesis unfolding yfd by (simp add: add.commute)
  qed
qed

lemma InLeapYear_of_cases: "InLeapYear_of y = 0 \<and> DaysInYear y = 365 \<or> InLeapYear_of y = 1 \<and> DaysInYear y = 366"
  by (simp add: InLeapYear_of_def DaysInYear_def)

lemma month_cases:
  fixes m :: int
  assumes "1 \<le> m" "m \<le> 12"
  shows "m = 1 \<or> m = 2 \<or> m = 3 \<or> m = 4 \<or> m = 5 \<or> m = 6
    \<or> m = 7 \<or> m = 8 \<or> m = 9 \<or> m = 10 \<or> m = 11 \<or> m = 12"
  using assms by presburger

lemma day_within_year:
  assumes "1 \<le> m" "m \<le> 12" "1 \<le> d" "d \<le> days_in_month y m"
  shows "0 \<le> month_start (InLeapYear_of y) (m - 1) + d - 1"
    and "month_start (InLeapYear_of y) (m - 1) + d - 1 < DaysInYear y"
  using assms(3,4) InLeapYear_of_cases [of y] month_cases [OF assms(1,2)]
  by (elim disjE; simp add: month_start_def days_in_month_def)+

lemma month_of_day:
  assumes "1 \<le> m" "m \<le> 12" "1 \<le> d" "d \<le> days_in_month y m"
    and "l = InLeapYear_of y" and "w = month_start l (m - 1) + d - 1"
  shows "(if w < 31 then 0 else if w < 59 + l then 1 else if w < 90 + l then 2
         else if w < 120 + l then 3 else if w < 151 + l then 4
         else if w < 181 + l then 5 else if w < 212 + l then 6
         else if w < 243 + l then 7 else if w < 273 + l then 8
         else if w < 304 + l then 9 else if w < 334 + l then 10
         else (11::int)) = m - 1"
  using assms(3-) InLeapYear_of_cases [of y] month_cases [OF assms(1,2)]
  by (elim disjE; simp add: month_start_def days_in_month_def)

lemma time_parts:
  fixes D h mi :: int
  assumes "0 \<le> h" "h < 24" "0 \<le> mi" "mi < 60"
    and "t = 86400000 * D + 3600000 * h + 60000 * mi"
  shows "t div 86400000 = D" "(t div 3600000) mod 24 = h" "(t div 60000) mod 60 = mi"
    "(t div 1000) mod 60 = 0" "t mod 1000 = 0"
proof -
  have r: "0 \<le> 3600000 * h + 60000 * mi" "3600000 * h + 60000 * mi < 86400000"
    using assms(1-4) by linarith+
  show "t div 86400000 = D"
    using int_div_pos_eq [of t 86400000 D "3600000 * h + 60000 * mi"] r assms(5) by simp
  have "t div 3600000 = 24 * D + h"
    using int_div_pos_eq [of t 3600000 "24 * D + h" "60000 * mi"] assms(3,4,5) by simp
  moreover have "(24 * D + h) mod 24 = h"
    using int_mod_pos_eq [of "24 * D + h" 24 D h] assms(1,2) by simp
  ultimately show "(t div 3600000) mod 24 = h" by simp
  have "t div 60000 = 60 * (24 * D + h) + mi"
    using int_div_pos_eq [of t 60000 "60 * (24 * D + h) + mi" 0] assms(5) by simp
  moreover have "(60 * (24 * D + h) + mi) mod 60 = mi"
    using int_mod_pos_eq [of "60 * (24 * D + h) + mi" 60 "24 * D + h" mi] assms(3,4) by simp
  ultimately show "(t div 60000) mod 60 = mi" by simp
  have "t div 1000 = 60 * (1440 * D + 60 * h + mi)"
    using int_div_pos_eq [of t 1000 "60 * (1440 * D + 60 * h + mi)" 0] assms(5) by simp
  then show "(t div 1000) mod 60 = 0" by simp
  show "t mod 1000 = 0"
    using int_mod_pos_eq [of t 1000 "86400 * D + 3600 * h + 60 * mi" 0] assms(5) by simp
qed

lemma DayFromYear_range:
  assumes "100 \<le> y" "y \<le> 9999"
  shows "- 700000 \<le> DayFromYear y" "DayFromYear y \<le> 3000000"
proof -
  define a b c where "a = (y - 1969) div 4" and "b = (y - 1901) div 100"
    and "c = (y - 1601) div 400"
  have ba: "4 * a \<le> y - 1969" "y - 1969 \<le> 4 * a + 3"
    unfolding a_def using div_bounds [of 4 "y - 1969"] by simp_all
  have bb: "100 * b \<le> y - 1901" "y - 1901 \<le> 100 * b + 99"
    unfolding b_def using div_bounds [of 100 "y - 1901"] by simp_all
  have bc: "400 * c \<le> y - 1601" "y - 1601 \<le> 400 * c + 399"
    unfolding c_def using div_bounds [of 400 "y - 1601"] by simp_all
  have r: "DayFromYear y = 365 * y - 719050 + a - b + c"
    by (simp add: DayFromYear_def a_def b_def c_def)
  show "- 700000 \<le> DayFromYear y" unfolding r using assms ba bb bc by linarith
  show "DayFromYear y \<le> 3000000" unfolding r using assms ba bb bc by linarith
qed

lemma civil_time:
  fixes y m d h mi :: int
  assumes y: "100 \<le> y" "y \<le> 9999" and m: "1 \<le> m" "m \<le> 12"
    and d: "1 \<le> d" "d \<le> days_in_month y m" and h: "0 \<le> h" "h < 24" and mi: "0 \<le> mi" "mi < 60"
  defines "t \<equiv> MakeDate (MakeDay y (m - 1) d) (MakeTime h mi 0 0)"
  shows "TimeClip t = Fin t"
    and "YearFromTime t = y" and "MonthFromTime t = m - 1" and "DateFromTime t = d"
    and "HourFromTime t = h" and "MinFromTime t = mi" and "SecFromTime t = 0" and "msFromTime t = 0"
proof -
  define w where "w = month_start (InLeapYear_of y) (m - 1) + d - 1"
  define D where "D = DayFromYear y + w"
  have w: "0 \<le> w" "w < DaysInYear y"
    using day_within_year [OF m d] by (simp_all add: w_def)
  have mdiv: "(m - 1) div 12 = 0" "(m - 1) mod 12 = m - 1"
    using m by simp_all
  have md: "MakeDay y (m - 1) d = D"
    by (simp add: MakeDay_def mdiv D_def w_def)
  have t: "t = 86400000 * D + 3600000 * h + 60000 * mi"
    by (simp add: t_def md MakeDate_def MakeTime_def msPerDay_def msPerHour_def msPerMinute_def)
  note tp = time_parts [OF h mi t]
  have day: "Day t = D" by (simp add: Day_def msPerDay_def tp)
  have "DayFromYear y \<le> D" "D < DayFromYear (y + 1)"
    using w by (simp_all add: D_def DayFromYear_Suc)
  then have yfd: "YearFromDay D = y" by (rule YearFromDay_eq)
  show yr: "YearFromTime t = y" by (simp add: YearFromTime_def day yfd)
  have dwy: "DayWithinYear t = w" by (simp add: DayWithinYear_def day yr D_def)
  have leap: "InLeapYear t = InLeapYear_of y" by (simp add: InLeapYear_def yr)
  show mo: "MonthFromTime t = m - 1"
    unfolding MonthFromTime_def dwy leap Let_def
    using month_of_day [OF m d refl w_def] .
  show "DateFromTime t = d"
    by (simp add: DateFromTime_def dwy leap mo w_def)
  show "HourFromTime t = h" by (simp add: HourFromTime_def msPerHour_def tp)
  show "MinFromTime t = mi" by (simp add: MinFromTime_def msPerMinute_def tp)
  show "SecFromTime t = 0" by (simp add: SecFromTime_def msPerSecond_def tp)
  show "msFromTime t = 0" by (simp add: msFromTime_def msPerSecond_def tp)
  have "DaysInYear y \<le> 366" by (rule DaysInYear_bounds)
  with w DayFromYear_range [OF y] have "- 700000 \<le> D" "D \<le> 3000366"
    by (simp_all add: D_def)
  with h mi have "- 8640000000000000 \<le> t" "t \<le> 8640000000000000"
    unfolding t by linarith+
  then show "TimeClip t = Fin t" by (simp add: TimeClip_def)
qed

lemma of_char_digit_char: "(of_char (digit_char n) :: nat) = 48 + n mod 10"
proof -
  have "48 + n mod 10 < 256" by (rule less_trans [of _ 58]) simp_all
  then show ?thesis by (simp add: digit_char_def)
qed

lemma is_digit_digit_char: "is_digit (digit_char n)"
  by (simp add: is_digit_def of_char_digit_char)

lemma digit_val_digit_char: "digit_val (digit_char n) = int (n mod 10)"
  by (simp add: digit_val_def of_char_digit_char)

lemma pad_digits: "list_all is_digit (pad w n)"
  by (induction w arbitrary: n) (simp_all add: is_digit_digit_char)

lemma pad_not_Nil: "0 < w \<Longrightarrow> pad w n \<noteq> []"
  by (cases w) simp_all

lemma notin_pad: "\<not> is_digit c \<Longrightarrow> c \<notin> set (pad w n)"
  using pad_digits [of w n] by (auto simp: list_all_iff)

lemma dec_value_snoc: "dec_value (xs @ [c]) = 10 * dec_value xs + digit_val c"
  by (simp add: dec_value_def)

lemma dec_value_pad: "dec_value (pad w n) = int (n mod 10 ^ w)"
proof (induction w arbitrary: n)
  case 0
  show ?case by (simp add: dec_value_def)
next
  case (Suc w)
  have "n mod (10 * 10 ^ w) = 10 * (n div 10 mod 10 ^ w) + n mod 10"
    by (simp add: mod_mult2_eq)
  then show ?case
    by (simp add: dec_value_snoc Suc digit_val_digit_char)
qed

lemma Number_js_pad:
  assumes "0 < w" "n < 10 ^ w"
  shows "Number_js (pad w n) = Fin (int n)"
  using assms by (simp add: Number_js_def pad_not_Nil pad_digits dec_value_pad)

lemma split_js_none: "c \<notin> set xs \<Longrightarrow> split_js c xs = [xs]"
  by (induction xs) auto

lemma split_js_app: "c \<notin> set xs \<Longrightarrow> split_js c (xs @ c # ys) = xs # split_js c ys"
  by (induction xs) auto

lemma not_digit_sep: "\<not> is_digit CHR ''-''" "\<not> is_digit CHR '':''"
  by (simp_all add: is_digit_def)

lemma split_date:
  "split_js CHR ''-'' (pad 4 y @ ''-'' @ pad 2 m @ ''-'' @ pad 2 d) = [pad 4 y, pad 2 m, pad 2 d]"
  using notin_pad [OF not_digit_sep(1)]
  by (simp add: split_js_app split_js_none del: pad.simps)

lemma split_time:
  "split_js CHR '':'' (pad 2 h @ '':'' @ pad 2 mi) = [pad 2 h, pad 2 mi]"
  using notin_pad [OF not_digit_sep(2)]
  by (simp add: split_js_app split_js_none del: pad.simps)

lemma pad_zero: "pad 2 0 = ''00''" "pad 3 0 = ''000''"
  by code_simp+

section \<open>The fan-out, reply by reply\<close>

lemma duration_min_nonzero: "duration_min s \<noteq> 0"
  by (simp add: duration_min_def split: option.split)

lemma Promise_all_rejected:
  "(\<exists>e. Promise_all (map (\<lambda>b. fanout_check b (g b)) bs) = Inl e) \<longleftrightarrow> (\<exists>b\<in>set bs. rejects (g b))"
proof (induction bs)
  case Nil
  show ?case by simp
next
  case (Cons b bs)
  show ?case
  proof (cases "g b")
    case (CheckRejects e)
    then show ?thesis by simp
  next
    case CheckNotOk
    with Cons show ?thesis by (auto split: sum.splits)
  next
    case (CheckBodyThrows e)
    then show ?thesis by simp
  next
    case (CheckData a)
    with Cons show ?thesis by (auto split: sum.splits)
  qed
qed

lemma Promise_all_fulfilled:
  "Promise_all (map (\<lambda>b. fanout_check b (g b)) bs) = Inr cs \<Longrightarrow>
     map fst (filter snd cs) = filter (\<lambda>b. open_answer (g b)) bs"
proof (induction bs arbitrary: cs)
  case Nil
  then show ?case by simp
next
  case (Cons b bs)
  then show ?case
    by (cases "g b") (auto split: sum.splits)
qed

lemma filter_result:
  assumes "combineDateTime (start_date (form s)) (start_time (form s)) = Returns (Some startIso)"
  shows "\<exists>sent. filterBarbersByAvailability w s bs =
           Returns (if \<exists>b\<in>set bs. rejects (on_check w (query_for s (b_id b) startIso)) then bs
                    else filter (\<lambda>b. open_answer (on_check w (query_for s (b_id b) startIso))) bs,
                    sent)"
proof (cases "Promise_all (map (\<lambda>b. fanout_check b (on_check w (query_for s (b_id b) startIso))) bs)")
  case (Inl e)
  then have "\<exists>b\<in>set bs. rejects (on_check w (query_for s (b_id b) startIso))"
    using Promise_all_rejected [of "\<lambda>b. on_check w (query_for s (b_id b) startIso)" bs] by blast
  with Inl assms show ?thesis
    by (simp add: filterBarbersByAvailability_def duration_min_nonzero)
next
  case (Inr cs)
  then have "\<not> (\<exists>b\<in>set bs. rejects (on_check w (query_for s (b_id b) startIso)))"
    using Promise_all_rejected [of "\<lambda>b. on_check w (query_for s (b_id b) startIso)" bs] by auto
  with Inr assms Promise_all_fulfilled [OF Inr] show ?thesis
    by (simp add: filterBarbersByAvailability_def duration_min_nonzero)
qed

lemma filter_returns:
  assumes "combineDateTime (start_date (form s)) (start_time (form s)) = Returns r"
  shows "\<exists>kept sent. filterBarbersByAvailability w s bs = Returns (kept, sent)"
proof (cases r)
  case None
  with assms show ?thesis by (simp add: filterBarbersByAvailability_def)
next
  case (Some startIso)
  with assms filter_result [of s startIso w bs] show ?thesis by blast
qed




section \<open>Evaluations on the session\<close>

lemma session_instant:
  "combineDateTime (start_date (form session)) (start_time (form session)) = Returns (Some ten)"
  by code_simp

lemma with_barber_a_instant:
  "combineDateTime (start_date (form with_barber_a)) (start_time (form with_barber_a)) =
     Returns (Some ten)"
  by code_simp


lemma initial_instant:
  "combineDateTime (start_date (form initial_app)) (start_time (form initial_app)) = Returns None"
  by code_simp

lemma session_query:
  "query_for session (barber_id (form session)) ten =
     \<lparr>q_barber_id = ''b'', q_start_time = ten, q_duration_min = 30\<rparr>"
  by code_simp

section \<open>The claims\<close>

subsection \<open>C1: the final probe fails closed\<close>

text \<open>
  C1, as stated: when the final probe of a submission fails, the creation request is
  never sent, nothing is committed, and the message shown is
  \<open>Unable to verify availability\<close>. The message is that one only when the check
  answers with an error status; when \<open>fetch\<close> itself rejects, the message shown is the
  one of the rejection.
\<close>

theorem submit_probe_rejected_counterexample:
  "submit (ledger unreachable) session =
     Returns (session\<lparr>error := ''Failed to fetch''\<rparr>,
       [GetCheck \<lparr>q_barber_id = ''b'', q_start_time = ten, q_duration_min = 30\<rparr>])
   \<and> ''Failed to fetch'' \<noteq> ''Unable to verify availability''"
  by code_simp

text \<open>
  C1, amended: when the final probe fails (the request is rejected, the status is not
  ok, or the body cannot be read), the only request of the submission is that probe, so
  the creation request is never sent; the state is the one before but for
  \<open>loading\<close>, which is false, and \<open>error\<close>, which is
  \<open>Unable to verify availability\<close> for a status that is not ok and the message of the
  error thrown otherwise.
\<close>

theorem submit_fails_closed:
  assumes "combineDateTime (start_date (form s)) (start_time (form s)) = Returns (Some startIso)"
    and "\<forall>a. on_check w (query_for s (barber_id (form s)) startIso) \<noteq> CheckData a"
  shows "\<exists>s' sent. submit w s = Returns (s', sent)
           \<and> sent = [GetCheck (query_for s (barber_id (form s)) startIso)]
           \<and> (\<forall>p. PostAppointment p \<notin> set sent)
           \<and> s' = s\<lparr>loading := False, error := error s'\<rparr>
           \<and> (on_check w (query_for s (barber_id (form s)) startIso) = CheckNotOk \<longrightarrow>
                error s' = ''Unable to verify availability'')
           \<and> (\<forall>e. on_check w (query_for s (barber_id (form s)) startIso) = CheckRejects e
                  \<or> on_check w (query_for s (barber_id (form s)) startIso) = CheckBodyThrows e \<longrightarrow>
                error s' = e)"
proof (cases "on_check w (query_for s (barber_id (form s)) startIso)")
  case (CheckRejects e)
  with assms(1) show ?thesis by (simp add: submit_def caught_def)
next
  case CheckNotOk
  with assms(1) show ?thesis by (simp add: submit_def caught_def)
next
  case (CheckBodyThrows e)
  with assms(1) show ?thesis by (simp add: submit_def caught_def)
next
  case (CheckData a)
  with assms(2) show ?thesis by blast
qed

theorem submit_fails_closed_witness:
  "submit (ledger refusing) session =
     Returns (session\<lparr>error := ''Unable to verify availability''\<rparr>,
       [GetCheck \<lparr>q_barber_id = ''b'', q_start_time = ten, q_duration_min = 30\<rparr>])
   \<and> submit (ledger unreachable) session =
     Returns (session\<lparr>error := ''Failed to fetch''\<rparr>,
       [GetCheck \<lparr>q_barber_id = ''b'', q_start_time = ten, q_duration_min = 30\<rparr>])"
proof -
  have n: "\<forall>a. on_check (ledger refusing) (query_for session (barber_id (form session)) ten)
             \<noteq> CheckData a"
    by (simp add: ledger_def refusing_def)
  have r: "\<forall>a. on_check (ledger unreachable) (query_for session (barber_id (form session)) ten)
             \<noteq> CheckData a"
    by (simp add: ledger_def unreachable_def)
  have l: "session\<lparr>loading := False, error := e\<rparr> = session\<lparr>error := e\<rparr>" for e
    by (simp add: session_def)
  from submit_fails_closed [OF session_instant n] submit_fails_closed [OF session_instant r]
  show ?thesis
    unfolding session_query by (auto simp: ledger_def refusing_def unreachable_def l)
qed

subsection \<open>C2: an incomplete draft\<close>




subsection \<open>C3: the fan-out fails open\<close>

text \<open>
  C3: in a pass of the filter over a catalog with a valid instant and duration, a barber
  whose probe fails (rejected request, status not ok, unreadable body) is in the list
  returned; when every probe fails, the list returned is the catalog.
\<close>

theorem fan_out_fails_open:
  assumes "combineDateTime (start_date (form s)) (start_time (form s)) = Returns (Some startIso)"
  shows "\<exists>kept sent. filterBarbersByAvailability w s allBarbers = Returns (kept, sent)
           \<and> (\<forall>b\<in>set allBarbers.
                 (\<forall>a. on_check w (query_for s (b_id b) startIso) \<noteq> CheckData a) \<longrightarrow> b \<in> set kept)
           \<and> ((\<forall>b\<in>set allBarbers. \<forall>a. on_check w (query_for s (b_id b) startIso) \<noteq> CheckData a)
                 \<longrightarrow> kept = allBarbers)"
proof -
  let ?r = "\<lambda>b. on_check w (query_for s (b_id b) startIso)"
  have open_fail: "open_answer (?r b)" if "\<forall>a. ?r b \<noteq> CheckData a" for b
    using that by (cases "?r b") auto
  obtain sent where res: "filterBarbersByAvailability w s allBarbers =
      Returns (if \<exists>b\<in>set allBarbers. rejects (?r b) then allBarbers
               else filter (\<lambda>b. open_answer (?r b)) allBarbers, sent)"
    using filter_result [OF assms] by blast
  show ?thesis
  proof (cases "\<exists>b\<in>set allBarbers. rejects (?r b)")
    case True
    with res show ?thesis by auto
  next
    case False
    have "filter (\<lambda>b. open_answer (?r b)) allBarbers = allBarbers"
      if "\<forall>b\<in>set allBarbers. \<forall>a. ?r b \<noteq> CheckData a"
      unfolding filter_id_conv using that open_fail by blast
    with False res open_fail show ?thesis by auto
  qed
qed

theorem fan_out_fails_open_witness:
  "\<exists>sent. filterBarbersByAvailability (ledger unreachable) session [barber_a, barber_b] =
     Returns ([barber_a, barber_b], sent)"
proof -
  have f: "\<forall>b\<in>set [barber_a, barber_b].
      \<forall>a. on_check (ledger unreachable) (query_for session (b_id b) ten) \<noteq> CheckData a"
    by (simp add: ledger_def unreachable_def)
  from fan_out_fails_open [OF session_instant, of "ledger unreachable" "[barber_a, barber_b]"] f
  show ?thesis by blast
qed

subsection \<open>C4: the time normalizer\<close>

text \<open>
  C4, as stated: for every pair of strings, \<open>combineDateTime\<close> returns \<open>null\<close> when one
  is empty and an instant otherwise. On a date that is not numeric it throws instead.
\<close>

theorem combineDateTime_throws_counterexample:
  "combineDateTime ''abc'' ''10:00'' = Throws ''Invalid time value''"
  by code_simp

text \<open>
  C4, amended: \<open>combineDateTime\<close> returns \<open>null\<close> when the date or the time is empty;
  for a date \<open>YYYY-MM-DD\<close> of the calendar with a year from 0100 to 9999 and a time
  \<open>HH:MM\<close> from 00:00 to 23:59 it returns the ISO string
  \<open>YYYY-MM-DDTHH:MM:00.000Z\<close> of that instant in UTC, a function of the two strings
  alone.
\<close>

theorem combineDateTime_normalises:
  fixes y m d h mi :: nat
  shows "combineDateTime [] timeStr = Returns None
    \<and> combineDateTime dateStr [] = Returns None
    \<and> (100 \<le> y \<and> y \<le> 9999 \<and> 1 \<le> m \<and> m \<le> 12 \<and> 1 \<le> d
        \<and> int d \<le> days_in_month (int y) (int m) \<and> h < 24 \<and> mi < 60 \<longrightarrow>
        combineDateTime (pad 4 y @ ''-'' @ pad 2 m @ ''-'' @ pad 2 d) (pad 2 h @ '':'' @ pad 2 mi) =
          Returns (Some (pad 4 y @ ''-'' @ pad 2 m @ ''-'' @ pad 2 d @ ''T'' @ pad 2 h @ '':''
                         @ pad 2 mi @ '':00.000Z'')))"
proof (intro conjI impI)
  show "combineDateTime [] timeStr = Returns None"
    by (simp add: combineDateTime_def)
  show "combineDateTime dateStr [] = Returns None"
    by (simp add: combineDateTime_def)
next
  assume valid: "100 \<le> y \<and> y \<le> 9999 \<and> 1 \<le> m \<and> m \<le> 12 \<and> 1 \<le> d
        \<and> int d \<le> days_in_month (int y) (int m) \<and> h < 24 \<and> mi < 60"
  then have ok: "100 \<le> y" "y \<le> 9999" "1 \<le> m" "m \<le> 12" "1 \<le> d"
    "int d \<le> days_in_month (int y) (int m)" "h < 24" "mi < 60"
    by simp_all
  define t where "t = MakeDate (MakeDay (int y) (int m - 1) (int d)) (MakeTime (int h) (int mi) 0 0)"
  have dim: "days_in_month (int y) (int m) \<le> 31"
    by (simp add: days_in_month_def InLeapYear_of_def)
  with ok(6) have d31: "d \<le> 31" by linarith
  have n: "Number_js (pad 4 y) = Fin (int y)" "Number_js (pad 2 m) = Fin (int m)"
    "Number_js (pad 2 d) = Fin (int d)" "Number_js (pad 2 h) = Fin (int h)"
    "Number_js (pad 2 mi) = Fin (int mi)"
    using ok d31 by (simp_all add: Number_js_pad del: pad.simps)
  have ne: "pad 4 y @ ''-'' @ pad 2 m @ ''-'' @ pad 2 d \<noteq> []" "pad 2 h @ '':'' @ pad 2 mi \<noteq> []"
    by simp_all
  have utc: "Date_UTC (Fin (int y)) (Fin (int m - 1)) (Fin (int d)) (Fin (int h)) (Fin (int mi)) =
      TimeClip t"
    using ok(1) by (simp add: t_def)
  note ct = civil_time [of "int y" "int m" "int d" "int h" "int mi", folded t_def]
  have c: "TimeClip t = Fin t" "YearFromTime t = int y" "MonthFromTime t = int m - 1"
    "DateFromTime t = int d" "HourFromTime t = int h" "MinFromTime t = int mi"
    "SecFromTime t = 0" "msFromTime t = 0"
    using ok by (simp_all add: ct)
  have iso: "iso_string t = pad 4 y @ ''-'' @ pad 2 m @ ''-'' @ pad 2 d @ ''T'' @ pad 2 h @ '':''
      @ pad 2 mi @ '':00.000Z''"
    unfolding iso_string_def c iso_year_def using ok(2)
    by (simp add: pad_zero del: pad.simps)
  have "combineDateTime (pad 4 y @ ''-'' @ pad 2 m @ ''-'' @ pad 2 d) (pad 2 h @ '':'' @ pad 2 mi) =
      (case toISOString (Date_UTC (Fin (int y)) (Fin (int m - 1)) (Fin (int d)) (Fin (int h)) (Fin (int mi))) of
         Returns str \<Rightarrow> Returns (Some str) | Throws e \<Rightarrow> Throws e | Unmodelled \<Rightarrow> Unmodelled)"
    unfolding combineDateTime_def split_date split_time
    using ne by (simp add: num_field_def n Let_def del: pad.simps Date_UTC.simps)
  then show "combineDateTime (pad 4 y @ ''-'' @ pad 2 m @ ''-'' @ pad 2 d) (pad 2 h @ '':'' @ pad 2 mi) =
        Returns (Some (pad 4 y @ ''-'' @ pad 2 m @ ''-'' @ pad 2 d @ ''T'' @ pad 2 h @ '':''
                       @ pad 2 mi @ '':00.000Z''))"
    unfolding utc c(1) by (simp add: iso del: pad.simps)
qed

theorem combineDateTime_normalises_witness:
  "combineDateTime [] ''10:00'' = Returns None
   \<and> combineDateTime ''2024-01-01'' [] = Returns None
   \<and> combineDateTime ''2024-01-01'' ''10:00'' = Returns (Some ''2024-01-01T10:00:00.000Z'')"
proof -
  have p: "pad 4 2024 = ''2024''" "pad 2 1 = ''01''" "pad 2 10 = ''10''" "pad 2 0 = ''00''"
    by code_simp+
  have v: "(100::nat) \<le> 2024 \<and> (2024::nat) \<le> 9999 \<and> (1::nat) \<le> 1 \<and> (1::nat) \<le> 12
      \<and> (1::nat) \<le> 1 \<and> int 1 \<le> days_in_month (int 2024) (int 1) \<and> (10::nat) < 24 \<and> (0::nat) < 60"
    by (simp add: days_in_month_def)
  from combineDateTime_normalises [of "''10:00''" "''2024-01-01''" 2024 1 1 10 0] v
  show ?thesis
    unfolding p by simp
qed

subsection \<open>C5: the selection follows the filtered list\<close>



subsection \<open>C6: replies that arrive out of order\<close>

text \<open>
  C6, as stated: while probes overlap, the status shown is never stale, the probe sent
  last superseding the earlier ones. The customer types ten, then eleven; barber B is
  taken at ten and free at eleven; the reply for eleven arrives first. Once both replies
  are in, the form says eleven and the status says that the slot is not available.
\<close>

theorem stale_status_counterexample:
  "run (ledger b_busy_at_ten) late_reply no_date = Returns after_late_reply
   \<and> start_time (form (shown after_late_reply)) = ''11:00''
   \<and> in_flight after_late_reply = []
   \<and> available (availability (shown after_late_reply)) = Some False
   \<and> \<not> up_to_date (ledger b_busy_at_ten) (shown after_late_reply)"
  by code_simp

text \<open>
  C6, amended: the status shown is the one of the reply that arrived last, whatever was
  sent or typed since its probe left (last write wins by order of completion; there is
  no counter of requests and no cancellation): after any sequence of edits and replies,
  the arrival of the reply to any probe in flight sets the status to that of this reply
  and leaves the form alone, and of two probes in flight the one whose reply comes
  second decides the status.
\<close>

lemma run_append:
  "run w (es @ fs) u =
     (case run w es u of
        Returns u1 \<Rightarrow> run w fs u1
      | Throws x \<Rightarrow> Throws x
      | Unmodelled \<Rightarrow> Unmodelled)"
  by (induction es arbitrary: u) (simp_all split: outcome.splits)

theorem reply_overwrites_status:
  assumes "run w es u0 = Returns u" and "k < length (in_flight u)"
  shows "(\<exists>u'. run w (es @ [Reply k]) u0 = Returns u'
            \<and> availability (shown u') = status_of (on_check w (in_flight u ! k))
            \<and> form (shown u') = form (shown u)
            \<and> in_flight u' = remove_nth k (in_flight u))
       \<and> (length (in_flight u) = 2 \<longrightarrow>
            (\<exists>u'. run w (es @ [Reply 1, Reply 0]) u0 = Returns u'
               \<and> availability (shown u') = status_of (on_check w (in_flight u ! 0)))
          \<and> (\<exists>u'. run w (es @ [Reply 0, Reply 0]) u0 = Returns u'
               \<and> availability (shown u') = status_of (on_check w (in_flight u ! 1))))"
proof (intro conjI impI)
  show "\<exists>u'. run w (es @ [Reply k]) u0 = Returns u'
            \<and> availability (shown u') = status_of (on_check w (in_flight u ! k))
            \<and> form (shown u') = form (shown u)
            \<and> in_flight u' = remove_nth k (in_flight u)"
    using assms by (simp add: run_append checkAvailability_settle_def)
next
  assume "length (in_flight u) = 2"
  then obtain q1 q2 where q: "in_flight u = [q1, q2]"
    by (cases "in_flight u"; simp) (metis length_0_conv length_Suc_conv)
  show "\<exists>u'. run w (es @ [Reply 1, Reply 0]) u0 = Returns u'
          \<and> availability (shown u') = status_of (on_check w (in_flight u ! 0))"
    using assms(1) by (simp add: run_append q remove_nth_def checkAvailability_settle_def)
  show "\<exists>u'. run w (es @ [Reply 0, Reply 0]) u0 = Returns u'
          \<and> availability (shown u') = status_of (on_check w (in_flight u ! 1))"
    using assms(1) by (simp add: run_append q remove_nth_def checkAvailability_settle_def)
qed

theorem reply_overwrites_status_witness:
  "(\<exists>u'. run (ledger b_busy_at_ten) (typed_twice @ [Reply 0]) no_date = Returns u'
        \<and> availability (shown u') = status_of (CheckData False)
        \<and> form (shown u') = draft\<lparr>start_time := ''11:00''\<rparr>)
   \<and> (\<exists>u'. run (ledger b_busy_at_ten) (typed_twice @ [Reply 1, Reply 0]) no_date = Returns u'
        \<and> availability (shown u') = status_of (CheckData False))
   \<and> (\<exists>u'. run (ledger b_busy_at_ten) (typed_twice @ [Reply 0, Reply 0]) no_date = Returns u'
        \<and> availability (shown u') = status_of (CheckData True))"
proof -
  let ?u = "\<lparr>shown = session\<lparr>form := draft\<lparr>start_time := ''11:00''\<rparr>,
                  availability := \<lparr>checking = True, available = None, message = []\<rparr>\<rparr>,
              in_flight = [\<lparr>q_barber_id = ''b'', q_start_time = ten, q_duration_min = 30\<rparr>,
                           \<lparr>q_barber_id = ''b'', q_start_time = eleven, q_duration_min = 30\<rparr>]\<rparr>"
  have e: "run (ledger b_busy_at_ten) typed_twice no_date = Returns ?u"
    by code_simp
  have k: "0 < length (in_flight ?u)" and l: "length (in_flight ?u) = 2"
    by simp_all
  have r: "on_check (ledger b_busy_at_ten) (in_flight ?u ! 0) = CheckData False"
    "on_check (ledger b_busy_at_ten) (in_flight ?u ! 1) = CheckData True"
    by (simp_all add: ledger_def b_busy_at_ten_def ten_def eleven_def)
  have f: "form (shown ?u) = draft\<lparr>start_time := ''11:00''\<rparr>"
    by simp
  from reply_overwrites_status [OF e k] l
  show ?thesis unfolding r f by blast
qed

subsection \<open>C7: a successful submission\<close>

text \<open>
  C7: when the final probe says available and the creation is accepted, the date, the
  time and the notes of the draft are emptied and the name, the phone, the barber and
  the service are as before; the availability status is neutral again; the reservation
  list is fetched again (after the probe and the creation, the last request is the one
  for the list, and what it returns is shown).
\<close>

theorem submit_success_clears_slot:
  assumes "combineDateTime (start_date (form s)) (start_time (form s)) = Returns (Some startIso)"
    and "on_check w (query_for s (barber_id (form s)) startIso) = CheckData True"
    and "on_create w (payload_of s startIso) = CreateOk"
  shows "\<exists>s'. submit w s =
            Returns (s', [GetCheck (query_for s (barber_id (form s)) startIso),
                          PostAppointment (payload_of s startIso), GetAppointments])
          \<and> form s' = (form s)\<lparr>start_date := [], start_time := [], notes := []\<rparr>
          \<and> customer_name (form s') = customer_name (form s)
          \<and> customer_phone (form s') = customer_phone (form s)
          \<and> barber_id (form s') = barber_id (form s)
          \<and> service_name (form s') = service_name (form s)
          \<and> availability s' = neutral
          \<and> appointments s' = appointments (fst (fetchAppointments w s))
          \<and> (\<forall>d. on_appointments w = GetData d \<longrightarrow> appointments s' = d)
          \<and> barbers s' = barbers s \<and> services s' = services s
          \<and> loading s' = False \<and> error s' = []"
proof -
  obtain s1 where f: "fetchAppointments w (s\<lparr>error := []\<rparr>) = (s1, [GetAppointments])"
    and s1: "s1 = (s\<lparr>error := []\<rparr>)\<lparr>appointments := appointments (fst (fetchAppointments w s))\<rparr>"
    by (cases "on_appointments w") (simp_all add: fetchAppointments_def)
  have r: "\<forall>d. on_appointments w = GetData d \<longrightarrow> appointments s1 = d"
    by (simp add: s1 fetchAppointments_def)
  have "submit w s =
      Returns (s1\<lparr>form := (form s1)\<lparr>start_date := [], start_time := [], notes := []\<rparr>,
                  availability := neutral, loading := False\<rparr>,
               [GetCheck (query_for s (barber_id (form s)) startIso),
                PostAppointment (payload_of s startIso), GetAppointments])"
    using assms f by (simp add: submit_def)
  with r show ?thesis by (simp add: s1)
qed

theorem submit_success_clears_slot_witness:
  "\<exists>s'. submit (ledger b_busy_at_ten) with_barber_a =
          Returns (s', [GetCheck (query_for with_barber_a (barber_id (form with_barber_a)) ten),
                        PostAppointment (payload_of with_barber_a ten), GetAppointments])
        \<and> form s' = (form with_barber_a)\<lparr>start_date := [], start_time := [], notes := []\<rparr>
        \<and> availability s' = neutral
        \<and> appointments s' = [booked]"
proof -
  have c: "on_check (ledger b_busy_at_ten)
             (query_for with_barber_a (barber_id (form with_barber_a)) ten) = CheckData True"
    by (simp add: ledger_def b_busy_at_ten_def query_for_def with_barber_a_def draft_def)
  have p: "on_create (ledger b_busy_at_ten) (payload_of with_barber_a ten) = CreateOk"
    by (simp add: ledger_def)
  have a: "on_appointments (ledger b_busy_at_ten) = GetData [booked]"
    by (simp add: ledger_def)
  from submit_success_clears_slot [OF with_barber_a_instant c p] a
  show ?thesis by blast
qed

subsection \<open>C8: cancellation\<close>

text \<open>
  C8: when the cancellation is accepted, the reservation list is fetched again and shown
  (the state changes in nothing else, and stays as it is when that fetch fails); when the
  cancellation fails, the message of the failure is put in \<open>error\<close> and nothing else
  of the state changes. In neither case is a reservation removed locally.
\<close>

theorem cancel_refreshes_or_reports:
  "(on_cancel w ident = CancelOk \<longrightarrow>
      cancel w s ident =
        (fst (fetchAppointments w s), [PatchCancel ident, GetAppointments])
      \<and> (\<forall>d. on_appointments w = GetData d \<longrightarrow>
            fst (cancel w s ident) = s\<lparr>appointments := d\<rparr>)
      \<and> ((\<forall>d. on_appointments w \<noteq> GetData d) \<longrightarrow> fst (cancel w s ident) = s))
   \<and> (on_cancel w ident = CancelNotOk \<longrightarrow>
      cancel w s ident = (s\<lparr>error := ''Failed to cancel appointment''\<rparr>, [PatchCancel ident]))
   \<and> (\<forall>e. on_cancel w ident = CancelRejects e \<longrightarrow>
      cancel w s ident = (s\<lparr>error := e\<rparr>, [PatchCancel ident]))"
proof (cases "on_cancel w ident")
  case (CancelRejects e)
  then show ?thesis by (simp add: cancel_def)
next
  case CancelNotOk
  then show ?thesis by (simp add: cancel_def)
next
  case CancelOk
  show ?thesis
  proof (cases "on_appointments w")
    case (GetData d)
    with CancelOk show ?thesis by (simp add: cancel_def fetchAppointments_def)
  next
    case (GetRejects e)
    with CancelOk show ?thesis by (simp add: cancel_def fetchAppointments_def)
  next
    case (GetBodyThrows e)
    with CancelOk show ?thesis by (simp add: cancel_def fetchAppointments_def)
  qed
qed

theorem cancel_refreshes_or_reports_witness:
  "cancel (ledger b_busy_at_ten) session ''1'' =
     (session\<lparr>appointments := [booked]\<rparr>, [PatchCancel ''1'', GetAppointments])
   \<and> cancel (ledger b_busy_at_ten) session ''2'' =
     (session\<lparr>error := ''Failed to cancel appointment''\<rparr>, [PatchCancel ''2''])
   \<and> cancel ((ledger b_busy_at_ten)\<lparr>on_cancel := CancelRejects\<rparr>) session ''Failed to fetch'' =
     (session\<lparr>error := ''Failed to fetch''\<rparr>, [PatchCancel ''Failed to fetch''])"
proof -
  have ok: "on_cancel (ledger b_busy_at_ten) ''1'' = CancelOk"
    and no: "on_cancel (ledger b_busy_at_ten) ''2'' = CancelNotOk"
    and rj: "on_cancel ((ledger b_busy_at_ten)\<lparr>on_cancel := CancelRejects\<rparr>) ''Failed to fetch'' =
               CancelRejects ''Failed to fetch''"
    and ap: "on_appointments (ledger b_busy_at_ten) = GetData [booked]"
    by (simp_all add: ledger_def)
  have f: "fetchAppointments (ledger b_busy_at_ten) session =
      (session\<lparr>appointments := [booked]\<rparr>, [GetAppointments])"
    by (simp add: fetchAppointments_def ap)
  from cancel_refreshes_or_reports [of "ledger b_busy_at_ten" "''1''" session]
    cancel_refreshes_or_reports [of "ledger b_busy_at_ten" "''2''" session]
    cancel_refreshes_or_reports [of "(ledger b_busy_at_ten)\<lparr>on_cancel := CancelRejects\<rparr>"
      "''Failed to fetch''" session]
    ok no rj
  show ?thesis by (simp add: f)
qed

subsection \<open>C9: the filter is idempotent\<close>



subsection \<open>C10: the price of the haircut\<close>

text \<open>
  C10: when the catalog is loaded, the list of services stored has the length of the
  list received; a service named \<open>Haircut\<close> is stored with the price 18 whatever
  price was received, its other fields as received; every other service is stored as
  received.
\<close>

theorem catalog_load_reprices_haircut:
  assumes "on_barbers w = GetData bData" and "on_services w = GetData sData"
    and "combineDateTime (start_date (form s)) (start_time (form s)) = Returns r"
  shows "\<exists>s' sent. fetchCatalog w s = Returns (s', sent)
           \<and> length (services s') = length sData
           \<and> (\<forall>i<length sData.
                 (s_name (sData ! i) = ''Haircut'' \<longrightarrow>
                    services s' ! i = (sData ! i)\<lparr>s_price := 18\<rparr> \<and> s_price (services s' ! i) = 18)
               \<and> (s_name (sData ! i) \<noteq> ''Haircut'' \<longrightarrow> services s' ! i = sData ! i))"
proof -
  obtain kept sent where "filterBarbersByAvailability w s bData = Returns (kept, sent)"
    using filter_returns [OF assms(3)] by blast
  with assms(1,2) show ?thesis
    by (simp add: fetchCatalog_def Let_def)
qed

theorem catalog_load_reprices_haircut_witness:
  "\<exists>s' sent. fetchCatalog (ledger b_busy_at_ten) initial_app = Returns (s', sent)
     \<and> length (services s') = 2
     \<and> services s' ! 0 = haircut\<lparr>s_price := 18\<rparr>
     \<and> s_price (services s' ! 0) = 18
     \<and> services s' ! 1 = shave"
proof -
  have b: "on_barbers (ledger b_busy_at_ten) = GetData [barber_a, barber_b]"
    and s: "on_services (ledger b_busy_at_ten) = GetData [haircut, shave]"
    by (simp_all add: ledger_def)
  have n: "s_name ([haircut, shave] ! 0) = ''Haircut''" "s_name ([haircut, shave] ! 1) \<noteq> ''Haircut''"
    by (simp_all add: haircut_def shave_def)
  from catalog_load_reprices_haircut [OF b s initial_instant]
  obtain s' sent where r: "fetchCatalog (ledger b_busy_at_ten) initial_app = Returns (s', sent)"
    and l: "length (services s') = length [haircut, shave]"
    and a: "\<forall>i<length [haircut, shave].
                 (s_name ([haircut, shave] ! i) = ''Haircut'' \<longrightarrow>
                    services s' ! i = ([haircut, shave] ! i)\<lparr>s_price := 18\<rparr>
                    \<and> s_price (services s' ! i) = 18)
               \<and> (s_name ([haircut, shave] ! i) \<noteq> ''Haircut'' \<longrightarrow>
                    services s' ! i = [haircut, shave] ! i)"
    by blast
  from a n have "services s' ! 0 = haircut\<lparr>s_price := 18\<rparr>" "s_price (services s' ! 0) = 18"
    "services s' ! 1 = shave"
    by force+
  with r l show ?thesis by simp
qed

end
